theory Spec2Isabelle
  imports Main
begin

section \<open>The AC monitoring dashboard (script.js)\<close>

text \<open>
  The script defines one class, \<open>ACMonitorApp\<close>, and instantiates it once. The object
  keeps a boolean \<open>isConnected\<close> and four cached element handles plus the list of
  sensor elements; \<open>updateUI\<close> writes the presentation of the flag into the page and
  \<open>handleIndicatorClick\<close> flips the flag and calls \<open>updateUI\<close>.

  The page is modelled as an explicit store: the elements of the document in document
  order, a handle being the position of an element, so that two handles can be the same
  element. A handle that \<open>getElementById\<close> did not find is \<open>null\<close> (\<open>None\<close>), and a
  property assignment through \<open>null\<close> throws a \<open>TypeError\<close>; the writes made before the
  throw stay in the page.

  The store is flat and fixed: the text of an element is what was last assigned to its
  \<open>innerText\<close>, the nesting of elements is not modelled, and nothing but the script adds
  or changes an element.
\<close>

subsection \<open>Values, elements and the document\<close>

datatype jsval = JNull | JString string

datatype error = TypeError

type_synonym ref = nat

text \<open>
  An element carries what the script reads or writes: its \<open>id\<close>, its \<open>className\<close>,
  its other attributes (\<open>data-val\<close> among them) and its \<open>innerText\<close>, the text it
  displays.
\<close>

record element =
  elemId :: "string option"
  className :: string
  attributes :: "(string \<times> string) list"
  innerText :: string

datatype readyState = Loading | Interactive | Complete

text \<open>
  The two closures the script registers: \<open>() => this.updateUI()\<close> on the document's
  \<open>DOMContentLoaded\<close> and \<open>this.handleIndicatorClick.bind(this)\<close> on the click of the
  indicator button.
\<close>

datatype readyListener = UpdateUIClosure

datatype clickListener = BoundHandleIndicatorClick

record document =
  readyState :: readyState
  elements :: "element list"
  domContentLoadedListeners :: "readyListener list"
  clickListeners :: "(ref \<times> clickListener) list"

text \<open>\<open>el.getAttribute(name)\<close>: the attribute's value, \<open>null\<close> when the element has none.\<close>

definition getAttribute :: "element \<Rightarrow> string \<Rightarrow> jsval" where
  "getAttribute el name =
     (case map_of (attributes el) name of None \<Rightarrow> JNull | Some v \<Rightarrow> JString v)"

text \<open>
  The value the \<open>innerText\<close> setter stores. The DOM declares the attribute as
  \<open>[LegacyNullToEmptyString] DOMString innerText\<close>: an assigned \<open>null\<close> becomes the empty
  string (it is not turned into the four letters \<open>null\<close>, as a plain \<open>DOMString\<close>
  attribute would do), and a string is taken as it is.
\<close>

fun toText :: "jsval \<Rightarrow> string" where
  "toText JNull = []"
| "toText (JString s) = s"

definition set_className :: "ref \<Rightarrow> string \<Rightarrow> element list \<Rightarrow> element list" where
  "set_className r v els = els[r := (els ! r)\<lparr>className := v\<rparr>]"

definition set_innerText :: "ref \<Rightarrow> jsval \<Rightarrow> element list \<Rightarrow> element list" where
  "set_innerText r v els = els[r := (els ! r)\<lparr>innerText := toText v\<rparr>]"

text \<open>
  \<open>h.className = v\<close> and \<open>h.innerText = v\<close> for a cached handle \<open>h\<close> that may be
  \<open>null\<close>: the assignment throws then, and the page is left as it is.
\<close>

definition assign_className ::
  "ref option \<Rightarrow> string \<Rightarrow> element list \<Rightarrow> error option \<times> element list" where
  "assign_className h v els =
     (case h of None \<Rightarrow> (Some TypeError, els) | Some r \<Rightarrow> (None, set_className r v els))"

definition assign_innerText ::
  "ref option \<Rightarrow> jsval \<Rightarrow> element list \<Rightarrow> error option \<times> element list" where
  "assign_innerText h v els =
     (case h of None \<Rightarrow> (Some TypeError, els) | Some r \<Rightarrow> (None, set_innerText r v els))"

text \<open>Statement sequencing: a statement that throws ends the sequence.\<close>

definition andThen ::
  "('s \<Rightarrow> error option \<times> 's) \<Rightarrow> ('s \<Rightarrow> error option \<times> 's) \<Rightarrow> 's \<Rightarrow> error option \<times> 's" where
  "andThen f g s = (case f s of (None, s') \<Rightarrow> g s' | (Some e, s') \<Rightarrow> (Some e, s'))"

text \<open>\<open>NodeList.forEach\<close>: the callback runs on each element in order.\<close>

fun forEach :: "(ref \<Rightarrow> 's \<Rightarrow> 's) \<Rightarrow> ref list \<Rightarrow> 's \<Rightarrow> 's" where
  "forEach f [] s = s"
| "forEach f (r # rs) s = forEach f rs (f r s)"

subsection \<open>Element lookup\<close>

text \<open>
  \<open>document.getElementById(x)\<close> is the first element in document order whose id is
  \<open>x\<close>, or \<open>null\<close>. \<open>document.querySelectorAll('.c')\<close> is the static list, in document
  order, of the elements that have \<open>c\<close> among the whitespace-separated tokens of their
  class attribute.
\<close>

definition getElementById :: "element list \<Rightarrow> string \<Rightarrow> ref option" where
  "getElementById els x = find (\<lambda>i. elemId (els ! i) = Some x) [0..<length els]"

definition isSpace :: "char \<Rightarrow> bool" where
  "isSpace c = (c = CHR '' '' \<or> c = CHR 0x09 \<or> c = CHR 0x0A \<or> c = CHR 0x0C \<or> c = CHR 0x0D)"

fun classTokens :: "string \<Rightarrow> string \<Rightarrow> string list" where
  "classTokens cur [] = (if cur = [] then [] else [cur])"
| "classTokens cur (c # cs) =
     (if isSpace c then (if cur = [] then classTokens [] cs else cur # classTokens [] cs)
      else classTokens (cur @ [c]) cs)"

definition hasClass :: "string \<Rightarrow> element \<Rightarrow> bool" where
  "hasClass c el = (c \<in> set (classTokens [] (className el)))"

definition querySelectorAll :: "element list \<Rightarrow> string \<Rightarrow> ref list" where
  "querySelectorAll els c = filter (\<lambda>i. hasClass c (els ! i)) [0..<length els]"

subsection \<open>The class ACMonitorApp\<close>

record ACMonitorApp =
  isConnected :: bool
  indicatorBtn :: "ref option"
  indicatorIcon :: "ref option"
  indicatorText :: "ref option"
  pulseRing :: "ref option"
  sensorValues :: "ref list"

text \<open>
  The running page: the one \<open>ACMonitorApp\<close> object, the document, and a ghost counter
  of the calls of \<open>updateUI\<close> made so far (no statement of the script reads it).
\<close>

record page =
  this :: ACMonitorApp
  document :: document
  updateUICalls :: nat

definition onlineButton :: string where
  "onlineButton = ''group relative flex items-center gap-1 sm:gap-1.5 rounded-full px-2.5 sm:px-3 py-1 transition-all duration-300 ease-out hover:scale-105 active:scale-95 shadow-lg bg-gradient-to-r from-emerald-500 to-emerald-400 shadow-emerald-900/40 ring-1 ring-white/10''"

definition offlineButton :: string where
  "offlineButton = ''group relative flex items-center gap-1 sm:gap-1.5 rounded-full px-2.5 sm:px-3 py-1 transition-all duration-300 ease-out hover:scale-105 active:scale-95 shadow-lg bg-gradient-to-r from-rose-600 to-red-500 shadow-rose-900/40 ring-1 ring-white/10''"

definition pulseShown :: string where
  "pulseShown = ''absolute -inset-1 -z-10 rounded-full bg-red-500 opacity-20 animate-ping''"

text \<open>
  The body of \<open>updateUI\<close> as it acts on the elements: the four assignments through the
  cached handles, then the loop over the sensor elements.
\<close>

definition updateUI_body :: "ACMonitorApp \<Rightarrow> element list \<Rightarrow> error option \<times> element list" where
  "updateUI_body a =
     (if isConnected a then
        andThen (assign_className (indicatorBtn a) onlineButton)
       (andThen (assign_innerText (indicatorIcon a) (JString ''wifi''))
       (andThen (assign_innerText (indicatorText a) (JString ''Online''))
       (andThen (assign_className (pulseRing a) ''hidden'')
          (\<lambda>els. (None,
             forEach (\<lambda>el els. set_innerText el (getAttribute (els ! el) ''data-val'') els)
               (sensorValues a) els)))))
      else
        andThen (assign_className (indicatorBtn a) offlineButton)
       (andThen (assign_innerText (indicatorIcon a) (JString ''wifi_off''))
       (andThen (assign_innerText (indicatorText a) (JString ''Offline''))
       (andThen (assign_className (pulseRing a) pulseShown)
          (\<lambda>els. (None,
             forEach (\<lambda>el els. set_innerText el (JString ''0'') els)
               (sensorValues a) els))))))"

definition updateUI :: "page \<Rightarrow> error option \<times> page" where
  "updateUI p =
     (case updateUI_body (this p) (elements (document p)) of
        (r, els) \<Rightarrow>
          (r, p\<lparr>document := (document p)\<lparr>elements := els\<rparr>,
                updateUICalls := Suc (updateUICalls p)\<rparr>))"

definition handleIndicatorClick :: "page \<Rightarrow> error option \<times> page" where
  "handleIndicatorClick p =
     updateUI (p\<lparr>this := (this p)\<lparr>isConnected := \<not> isConnected (this p)\<rparr>\<rparr>)"

definition setupEventListeners :: "page \<Rightarrow> page" where
  "setupEventListeners p =
     (case indicatorBtn (this p) of
        None \<Rightarrow> p
      | Some b \<Rightarrow>
          p\<lparr>document := (document p)
               \<lparr>clickListeners := clickListeners (document p) @ [(b, BoundHandleIndicatorClick)]\<rparr>\<rparr>)"

definition initialize :: "page \<Rightarrow> error option \<times> page" where
  "initialize p =
     (if readyState (document p) = Loading then
        (None, p\<lparr>document := (document p)
                   \<lparr>domContentLoadedListeners :=
                      domContentLoadedListeners (document p) @ [UpdateUIClosure]\<rparr>\<rparr>)
      else updateUI p)"

text \<open>
  \<open>new ACMonitorApp()\<close> on a document. The constructor first fills the object: the flag
  starts \<open>false\<close>, the four handles are looked up by id and the sensor elements by
  class. Then \<open>setupEventListeners\<close> and \<open>initialize\<close> run. An error is the exception
  the constructor lets escape; the object stays reachable from the listeners it
  registered.
\<close>

definition initialApp :: "document \<Rightarrow> ACMonitorApp" where
  "initialApp d =
     \<lparr>isConnected = False,
      indicatorBtn = getElementById (elements d) ''indicatorBtn'',
      indicatorIcon = getElementById (elements d) ''indicatorIcon'',
      indicatorText = getElementById (elements d) ''indicatorText'',
      pulseRing = getElementById (elements d) ''pulseRing'',
      sensorValues = querySelectorAll (elements d) ''sensor-val''\<rparr>"

definition constructor :: "document \<Rightarrow> error option \<times> page" where
  "constructor d =
     initialize (setupEventListeners \<lparr>this = initialApp d, document = d, updateUICalls = 0\<rparr>)"

subsection \<open>Events of the host\<close>

text \<open>
  The host calls the listeners of an event in the order of their registration; an
  exception a listener throws is reported and does not stop the others.
  \<open>DOMContentLoaded\<close> is fired once, when the document leaves \<open>loading\<close>.
\<close>

fun runReady :: "readyListener \<Rightarrow> page \<Rightarrow> page" where
  "runReady UpdateUIClosure p = snd (updateUI p)"

fun runClick :: "clickListener \<Rightarrow> page \<Rightarrow> page" where
  "runClick BoundHandleIndicatorClick p = snd (handleIndicatorClick p)"

definition domContentLoaded :: "page \<Rightarrow> page" where
  "domContentLoaded p =
     (if readyState (document p) = Loading then
        fold runReady (domContentLoadedListeners (document p))
          (p\<lparr>document := (document p)\<lparr>readyState := Interactive\<rparr>\<rparr>)
      else p)"

definition click :: "ref \<Rightarrow> page \<Rightarrow> page" where
  "click r p =
     fold runClick (map snd (filter (\<lambda>l. fst l = r) (clickListeners (document p)))) p"

subsection \<open>What a run of updateUI leaves in an element\<close>

text \<open>
  The values the two branches of \<open>updateUI\<close> assign, by the flag, and the handles that
  must be there for the body to run to its end.
\<close>

definition buttonStyle :: "bool \<Rightarrow> string" where
  "buttonStyle c = (if c then onlineButton else offlineButton)"

definition iconGlyph :: "bool \<Rightarrow> string" where
  "iconGlyph c = (if c then ''wifi'' else ''wifi_off'')"

definition labelText :: "bool \<Rightarrow> string" where
  "labelText c = (if c then ''Online'' else ''Offline'')"

definition pulseStyle :: "bool \<Rightarrow> string" where
  "pulseStyle c = (if c then ''hidden'' else pulseShown)"

definition sensorText :: "bool \<Rightarrow> element \<Rightarrow> string" where
  "sensorText c e = (if c then toText (getAttribute e ''data-val'') else ''0'')"

definition present :: "ACMonitorApp \<Rightarrow> bool" where
  "present a = (indicatorBtn a \<noteq> None \<and> indicatorIcon a \<noteq> None \<and>
                indicatorText a \<noteq> None \<and> pulseRing a \<noteq> None)"

text \<open>
  The class and the text of the element at position \<open>k\<close> after the body has run on
  it, the throw at the first \<open>null\<close> handle included: the later assignment wins where
  two handles are the same element.
\<close>

definition newClass :: "ACMonitorApp \<Rightarrow> ref \<Rightarrow> string \<Rightarrow> string" where
  "newClass a k c =
     (if indicatorBtn a = None then c
      else if present a \<and> pulseRing a = Some k then pulseStyle (isConnected a)
      else if indicatorBtn a = Some k then buttonStyle (isConnected a)
      else c)"

definition newText :: "ACMonitorApp \<Rightarrow> ref \<Rightarrow> element \<Rightarrow> string" where
  "newText a k e =
     (if indicatorBtn a = None \<or> indicatorIcon a = None then innerText e
      else if present a \<and> k \<in> set (sensorValues a) then sensorText (isConnected a) e
      else if indicatorText a = Some k then labelText (isConnected a)
      else if indicatorIcon a = Some k then iconGlyph (isConnected a)
      else innerText e)"

definition sameHandles :: "ACMonitorApp \<Rightarrow> ACMonitorApp \<Rightarrow> bool" where
  "sameHandles a a' =
     (indicatorBtn a = indicatorBtn a' \<and> indicatorIcon a = indicatorIcon a' \<and>
      indicatorText a = indicatorText a' \<and> pulseRing a = pulseRing a' \<and>
      sensorValues a = sensorValues a')"

text \<open>
  The handles of a page are cached when they are what \<open>getElementById\<close> finds and the
  sensor elements are elements of the page; it is wired when none of the four is \<open>null\<close>.
  The icon and the label are apart from the sensors when neither is itself a sensor
  element.
\<close>

definition cached :: "page \<Rightarrow> bool" where
  "cached p =
     (indicatorBtn (this p) = getElementById (elements (document p)) ''indicatorBtn'' \<and>
      indicatorIcon (this p) = getElementById (elements (document p)) ''indicatorIcon'' \<and>
      indicatorText (this p) = getElementById (elements (document p)) ''indicatorText'' \<and>
      pulseRing (this p) = getElementById (elements (document p)) ''pulseRing'' \<and>
      list_all (\<lambda>r. r < length (elements (document p))) (sensorValues (this p)))"

definition wired :: "page \<Rightarrow> bool" where
  "wired p = (cached p \<and> present (this p))"

definition apart :: "ACMonitorApp \<Rightarrow> bool" where
  "apart a =
     (list_all (\<lambda>r. indicatorIcon a \<noteq> Some r \<and> indicatorText a \<noteq> Some r) (sensorValues a))"

text \<open>The elements as a call of \<open>updateUI\<close> on the page leaves them.\<close>

abbreviation rendered :: "page \<Rightarrow> element list" where
  "rendered p \<equiv> elements (document (snd (updateUI p)))"

subsection \<open>Construction, first render and sequences of operations\<close>

text \<open>The four elements the constructor looks up by id are in the document.\<close>

definition surfacesPresent :: "element list \<Rightarrow> bool" where
  "surfacesPresent els =
     (getElementById els ''indicatorBtn'' \<noteq> None \<and> getElementById els ''indicatorIcon'' \<noteq> None \<and>
      getElementById els ''indicatorText'' \<noteq> None \<and> getElementById els ''pulseRing'' \<noteq> None)"

text \<open>
  The page after \<open>new ACMonitorApp()\<close> and the first call of \<open>updateUI\<close>: the
  constructor makes that call itself unless the document is still loading, and then
  \<open>DOMContentLoaded\<close> brings it.
\<close>

definition afterFirstRender :: "document \<Rightarrow> page" where
  "afterFirstRender d =
     (if readyState d = Loading then domContentLoaded (snd (constructor d))
      else snd (constructor d))"

text \<open>
  What can happen to a constructed page: a call of \<open>handleIndicatorClick\<close> (the click
  listener), of \<open>updateUI\<close>, of \<open>initialize\<close>, and the host's \<open>DOMContentLoaded\<close>.
  Each runs to its end or to its exception before the next starts.
\<close>

datatype operation = Toggle | Render | Initialize | Ready

fun perform :: "operation \<Rightarrow> page \<Rightarrow> page" where
  "perform Toggle p = snd (handleIndicatorClick p)"
| "perform Render p = snd (updateUI p)"
| "perform Initialize p = snd (initialize p)"
| "perform Ready p = domContentLoaded p"

definition run :: "operation list \<Rightarrow> page \<Rightarrow> page" where
  "run ops p = fold perform ops p"

subsection \<open>Two documents to evaluate on\<close>

text \<open>
  A dashboard with the four identified elements and two sensor elements, the second
  without a \<open>data-val\<close> attribute; and the same dashboard without the pulse ring.
\<close>

definition dashboard :: "element list" where
  "dashboard =
     [\<lparr>elemId = Some ''indicatorBtn'', className = ''group'', attributes = [], innerText = []\<rparr>,
      \<lparr>elemId = Some ''indicatorIcon'', className = ''material-icons'', attributes = [],
        innerText = ''sync''\<rparr>,
      \<lparr>elemId = Some ''indicatorText'', className = ''text-xs'', attributes = [],
        innerText = ''Checking''\<rparr>,
      \<lparr>elemId = Some ''pulseRing'', className = ''absolute'', attributes = [], innerText = []\<rparr>,
      \<lparr>elemId = None, className = ''sensor-val text-2xl'',
        attributes = [(''data-val'', ''23.5'')], innerText = ''--''\<rparr>,
      \<lparr>elemId = None, className = ''text-sm sensor-val'', attributes = [],
        innerText = ''--''\<rparr>]"

definition dashboardNoPulse :: "element list" where
  "dashboardNoPulse =
     [\<lparr>elemId = Some ''indicatorBtn'', className = ''group'', attributes = [], innerText = []\<rparr>,
      \<lparr>elemId = Some ''indicatorIcon'', className = ''material-icons'', attributes = [],
        innerText = ''sync''\<rparr>,
      \<lparr>elemId = Some ''indicatorText'', className = ''text-xs'', attributes = [],
        innerText = ''Checking''\<rparr>,
      \<lparr>elemId = None, className = ''sensor-val text-2xl'',
        attributes = [(''data-val'', ''23.5'')], innerText = ''--''\<rparr>]"

definition loaded :: "element list \<Rightarrow> document" where
  "loaded els =
     \<lparr>readyState = Complete, elements = els, domContentLoadedListeners = [],
      clickListeners = []\<rparr>"

definition loading :: "element list \<Rightarrow> document" where
  "loading els =
     \<lparr>readyState = Loading, elements = els, domContentLoadedListeners = [],
      clickListeners = []\<rparr>"

section \<open>Properties\<close>

subsection \<open>Single assignments and the loop\<close>

lemma length_set_className [simp]: "length (set_className r v els) = length els"
  by (simp add: set_className_def)

lemma length_set_innerText [simp]: "length (set_innerText r v els) = length els"
  by (simp add: set_innerText_def)

lemma nth_set_className:
  "k < length els \<Longrightarrow>
   set_className r v els ! k = (if k = r then (els ! k)\<lparr>className := v\<rparr> else els ! k)"
  by (simp add: set_className_def nth_list_update)

lemma nth_set_innerText:
  "k < length els \<Longrightarrow>
   set_innerText r v els ! k = (if k = r then (els ! k)\<lparr>innerText := toText v\<rparr> else els ! k)"
  by (simp add: set_innerText_def nth_list_update)

lemma length_forEach:
  "(\<And>r s. length (f r s) = length s) \<Longrightarrow> length (forEach f rs els) = length els"
  by (induction rs arbitrary: els) simp_all

lemma length_forEach_attr [simp]:
  "length (forEach (\<lambda>el els. set_innerText el (getAttribute (els ! el) n) els) rs els) = length els"
  by (rule length_forEach) simp

lemma length_forEach_const [simp]:
  "length (forEach (\<lambda>el. set_innerText el v) rs els) = length els"
  by (rule length_forEach) simp

lemma getAttribute_innerText [simp]: "getAttribute (e\<lparr>innerText := t\<rparr>) n = getAttribute e n"
  by (simp add: getAttribute_def)

lemma getAttribute_className [simp]: "getAttribute (e\<lparr>className := t\<rparr>) n = getAttribute e n"
  by (simp add: getAttribute_def)

lemma nth_forEach_attr:
  "k < length els \<Longrightarrow>
    forEach (\<lambda>el els. set_innerText el (getAttribute (els ! el) n) els) rs els ! k =
      (if k \<in> set rs then (els ! k)\<lparr>innerText := toText (getAttribute (els ! k) n)\<rparr> else els ! k)"
  by (induction rs arbitrary: els) (simp_all add: nth_set_innerText)

lemma nth_forEach_const:
  "k < length els \<Longrightarrow>
    forEach (\<lambda>el. set_innerText el v) rs els ! k =
      (if k \<in> set rs then (els ! k)\<lparr>innerText := toText v\<rparr> else els ! k)"
  by (induction rs arbitrary: els) (simp_all add: nth_set_innerText)

subsection \<open>The body of updateUI, element by element\<close>

lemma length_updateUI_body [simp]: "length (snd (updateUI_body a els)) = length els"
  by (simp add: updateUI_body_def andThen_def assign_className_def assign_innerText_def
      split: option.splits)

lemma fst_updateUI_body: "fst (updateUI_body a els) = (if present a then None else Some TypeError)"
  by (simp add: updateUI_body_def andThen_def assign_className_def assign_innerText_def present_def
      split: option.splits)

lemmas body_defs = updateUI_body_def andThen_def assign_className_def assign_innerText_def
  nth_set_className nth_set_innerText nth_forEach_attr nth_forEach_const

lemma attributes_updateUI_body:
  "k < length els \<Longrightarrow> attributes (snd (updateUI_body a els) ! k) = attributes (els ! k)"
  by (simp add: body_defs split: option.splits)

lemma elemId_updateUI_body:
  "k < length els \<Longrightarrow> elemId (snd (updateUI_body a els) ! k) = elemId (els ! k)"
  by (simp add: body_defs split: option.splits)

lemma className_updateUI_body:
  "k < length els \<Longrightarrow>
   className (snd (updateUI_body a els) ! k) = newClass a k (className (els ! k))"
  by (simp add: body_defs newClass_def present_def buttonStyle_def pulseStyle_def
      split: option.splits)

lemma innerText_updateUI_body:
  "k < length els \<Longrightarrow> innerText (snd (updateUI_body a els) ! k) = newText a k (els ! k)"
  by (simp add: body_defs newText_def present_def iconGlyph_def labelText_def sensorText_def
      split: option.splits)

lemma sensorText_cong: "attributes e' = attributes e \<Longrightarrow> sensorText c e' = sensorText c e"
  by (simp add: sensorText_def getAttribute_def)

lemma sameHandlesD:
  assumes "sameHandles a a'"
  shows "indicatorBtn a' = indicatorBtn a" "indicatorIcon a' = indicatorIcon a"
    "indicatorText a' = indicatorText a" "pulseRing a' = pulseRing a"
    "sensorValues a' = sensorValues a" "present a' = present a"
  using assms by (simp_all add: sameHandles_def present_def)

lemma newClass_absorb:
  assumes "sameHandles a a'"
  shows "newClass a' k (newClass a k c) = newClass a' k c"
  unfolding newClass_def sameHandlesD [OF assms] by auto

lemma newText_absorb:
  assumes "sameHandles a a'" and "attributes e' = attributes e"
    and "innerText e' = newText a k e"
  shows "newText a' k e' = newText a' k e"
  using assms(3) unfolding newText_def sameHandlesD [OF assms(1)] sensorText_cong [OF assms(2)]
  by auto

lemma updateUI_body_absorb:
  assumes "sameHandles a a'"
  shows "snd (updateUI_body a' (snd (updateUI_body a els))) = snd (updateUI_body a' els)"
proof (rule nth_equalityI)
  show "length (snd (updateUI_body a' (snd (updateUI_body a els)))) =
        length (snd (updateUI_body a' els))"
    by simp
next
  fix k
  assume "k < length (snd (updateUI_body a' (snd (updateUI_body a els))))"
  then have k: "k < length els" by simp
  let ?mid = "snd (updateUI_body a els)"
  have km: "k < length ?mid" using k by simp
  show "snd (updateUI_body a' ?mid) ! k = snd (updateUI_body a' els) ! k"
  proof (rule element.equality)
    show "elemId (snd (updateUI_body a' ?mid) ! k) = elemId (snd (updateUI_body a' els) ! k)"
      using k km by (simp add: elemId_updateUI_body)
    show "attributes (snd (updateUI_body a' ?mid) ! k) =
          attributes (snd (updateUI_body a' els) ! k)"
      using k km by (simp add: attributes_updateUI_body)
    show "className (snd (updateUI_body a' ?mid) ! k) =
          className (snd (updateUI_body a' els) ! k)"
      using k km by (simp add: className_updateUI_body newClass_absorb [OF assms])
    show "innerText (snd (updateUI_body a' ?mid) ! k) =
          innerText (snd (updateUI_body a' els) ! k)"
      using k km
      by (simp add: innerText_updateUI_body
          newText_absorb [OF assms attributes_updateUI_body innerText_updateUI_body])
  qed simp
qed


subsection \<open>updateUI and handleIndicatorClick on the page\<close>

lemma fst_updateUI: "fst (updateUI p) = (if present (this p) then None else Some TypeError)"
  by (simp add: updateUI_def case_prod_beta fst_updateUI_body)

lemma this_updateUI [simp]: "this (snd (updateUI p)) = this p"
  by (simp add: updateUI_def case_prod_beta)

lemma updateUICalls_updateUI [simp]: "updateUICalls (snd (updateUI p)) = Suc (updateUICalls p)"
  by (simp add: updateUI_def case_prod_beta)

lemma document_updateUI:
  "document (snd (updateUI p)) =
     (document p)\<lparr>elements := snd (updateUI_body (this p) (elements (document p)))\<rparr>"
  by (simp add: updateUI_def case_prod_beta)

lemma sameHandles_refl [simp]: "sameHandles a a"
  by (simp add: sameHandles_def)

lemma sameHandles_flip [simp]:
  "sameHandles (a\<lparr>isConnected := c\<rparr>) a" "sameHandles a (a\<lparr>isConnected := c\<rparr>)"
  by (simp_all add: sameHandles_def)

lemma present_flip [simp]: "present (a\<lparr>isConnected := c\<rparr>) = present a"
  by (simp add: present_def)

lemma this_handleIndicatorClick:
  "this (snd (handleIndicatorClick p)) = (this p)\<lparr>isConnected := \<not> isConnected (this p)\<rparr>"
  by (simp add: handleIndicatorClick_def)

lemma document_handleIndicatorClick:
  "document (snd (handleIndicatorClick p)) =
     (document p)\<lparr>elements :=
        snd (updateUI_body ((this p)\<lparr>isConnected := \<not> isConnected (this p)\<rparr>)
          (elements (document p)))\<rparr>"
  by (simp add: handleIndicatorClick_def document_updateUI)

lemma getElementById_SomeD:
  "getElementById els x = Some r \<Longrightarrow> r < length els \<and> elemId (els ! r) = Some x"
  by (auto simp: getElementById_def find_Some_iff)

lemma length_rendered [simp]: "length (rendered p) = length (elements (document p))"
  by (simp add: document_updateUI)

lemma className_rendered:
  "k < length (elements (document p)) \<Longrightarrow>
   className (rendered p ! k) = newClass (this p) k (className (elements (document p) ! k))"
  by (simp add: document_updateUI className_updateUI_body)

lemma innerText_rendered:
  "k < length (elements (document p)) \<Longrightarrow>
   innerText (rendered p ! k) = newText (this p) k (elements (document p) ! k)"
  by (simp add: document_updateUI innerText_updateUI_body)

lemma attributes_rendered:
  "k < length (elements (document p)) \<Longrightarrow>
   attributes (rendered p ! k) = attributes (elements (document p) ! k)"
  by (simp add: document_updateUI attributes_updateUI_body)

lemma hasClass_hidden: "className e = ''hidden'' \<Longrightarrow> hasClass ''hidden'' e"
  by (simp add: hasClass_def isSpace_def)

lemma hasClass_pulseShown: "className e = pulseShown \<Longrightarrow> \<not> hasClass ''hidden'' e"
  by (simp add: hasClass_def pulseShown_def isSpace_def)

lemma wiredD:
  assumes "wired p"
  obtains b i t q where
    "indicatorBtn (this p) = Some b" "indicatorIcon (this p) = Some i"
    "indicatorText (this p) = Some t" "pulseRing (this p) = Some q"
    "b < length (elements (document p))" "i < length (elements (document p))"
    "t < length (elements (document p))" "q < length (elements (document p))"
    "i \<noteq> t" "b \<noteq> q" "present (this p)"
    "\<forall>r \<in> set (sensorValues (this p)). r < length (elements (document p))"
proof -
  let ?els = "elements (document p)"
  from assms have pr: "present (this p)" and c: "cached p"
    by (simp_all add: wired_def)
  from pr obtain b i t q where h:
    "indicatorBtn (this p) = Some b" "indicatorIcon (this p) = Some i"
    "indicatorText (this p) = Some t" "pulseRing (this p) = Some q"
    by (auto simp: present_def)
  from c h have g: "getElementById ?els ''indicatorBtn'' = Some b"
    "getElementById ?els ''indicatorIcon'' = Some i"
    "getElementById ?els ''indicatorText'' = Some t"
    "getElementById ?els ''pulseRing'' = Some q"
    by (simp_all add: cached_def)
  note d = g [THEN getElementById_SomeD]
  from d have "i \<noteq> t" "b \<noteq> q" by auto
  moreover from c have "\<forall>r \<in> set (sensorValues (this p)). r < length ?els"
    by (simp add: cached_def list_all_iff)
  ultimately show thesis
    using that h d pr by blast
qed

lemma cachedD:
  assumes "cached p"
  shows "getElementById (elements (document p)) ''indicatorBtn'' = indicatorBtn (this p)"
    and "getElementById (elements (document p)) ''indicatorIcon'' = indicatorIcon (this p)"
    and "getElementById (elements (document p)) ''indicatorText'' = indicatorText (this p)"
    and "getElementById (elements (document p)) ''pulseRing'' = pulseRing (this p)"
  using assms unfolding cached_def by simp_all

lemma cached_bound:
  assumes "cached p"
    and "h \<in> {indicatorBtn (this p), indicatorIcon (this p), indicatorText (this p),
              pulseRing (this p)}"
    and "h = Some r"
  shows "r < length (elements (document p))"
proof -
  from assms(2) obtain x where "getElementById (elements (document p)) x = h"
    using cachedD [OF assms(1)] by auto
  with assms(3) show ?thesis
    by (simp add: getElementById_SomeD)
qed

lemma cached_icon_label:
  assumes "cached p" and "indicatorIcon (this p) = Some i" and "indicatorText (this p) = Some t"
  shows "i \<noteq> t"
proof
  assume "i = t"
  with assms(2,3) have "getElementById (elements (document p)) ''indicatorIcon'' = Some t"
    "getElementById (elements (document p)) ''indicatorText'' = Some t"
    by (simp_all add: cachedD [OF assms(1)])
  from this [THEN getElementById_SomeD] show False by simp
qed

lemma readyState_updateUI [simp]: "readyState (document (snd (updateUI p))) = readyState (document p)"
  by (simp add: document_updateUI)

lemma listeners_updateUI [simp]:
  "domContentLoadedListeners (document (snd (updateUI p))) = domContentLoadedListeners (document p)"
  "clickListeners (document (snd (updateUI p))) = clickListeners (document p)"
  by (simp_all add: document_updateUI)

lemma this_initialize [simp]: "this (snd (initialize p)) = this p"
  by (simp add: initialize_def)

lemma this_fold_runReady [simp]: "this (fold runReady ls p) = this p"
proof (induction ls arbitrary: p)
  case Nil
  show ?case by simp
next
  case (Cons l ls)
  then show ?case by (cases l) simp
qed

lemma updateUICalls_fold_runReady [simp]:
  "updateUICalls (fold runReady ls p) = updateUICalls p + length ls"
proof (induction ls arbitrary: p)
  case Nil
  show ?case by simp
next
  case (Cons l ls)
  then show ?case by (cases l) simp
qed

lemma readyState_fold_runReady [simp]:
  "readyState (document (fold runReady ls p)) = readyState (document p)"
proof (induction ls arbitrary: p)
  case Nil
  show ?case by simp
next
  case (Cons l ls)
  then show ?case by (cases l) simp
qed

lemma this_domContentLoaded [simp]: "this (domContentLoaded p) = this p"
  by (simp add: domContentLoaded_def)

lemma domContentLoaded_once: "domContentLoaded (domContentLoaded p) = domContentLoaded p"
  by (simp add: domContentLoaded_def)

lemma isConnected_perform:
  "isConnected (this (perform op p)) = (isConnected (this p) \<noteq> (op = Toggle))"
  by (cases op) (simp_all add: this_handleIndicatorClick)

lemma isConnected_run:
  "isConnected (this (run ops p)) = (isConnected (this p) \<noteq> odd (count_list ops Toggle))"
  unfolding run_def
proof (induction ops arbitrary: p)
  case Nil
  show ?case by simp
next
  case (Cons op ops)
  show ?case
    by (simp add: Cons.IH isConnected_perform) blast
qed

lemma constructor_initialApp:
  "constructor d =
     initialize (setupEventListeners \<lparr>this = initialApp d, document = d, updateUICalls = 0\<rparr>)"
  by (simp add: constructor_def)

lemma setupEventListeners_simps [simp]:
  "this (setupEventListeners p) = this p"
  "updateUICalls (setupEventListeners p) = updateUICalls p"
  "readyState (document (setupEventListeners p)) = readyState (document p)"
  "elements (document (setupEventListeners p)) = elements (document p)"
  "domContentLoadedListeners (document (setupEventListeners p)) =
     domContentLoadedListeners (document p)"
  by (simp_all add: setupEventListeners_def split: option.splits)

lemma this_constructor: "this (snd (constructor d)) = initialApp d"
  by (simp add: constructor_initialApp)

lemma map_attributes_rendered: "map attributes (rendered p) = map attributes (elements (document p))"
  by (rule nth_equalityI) (simp_all add: attributes_rendered)

lemma querySelectorAll_bound: "r \<in> set (querySelectorAll els c) \<Longrightarrow> r < length els"
  by (simp add: querySelectorAll_def)

lemma present_initialApp: "present (initialApp d) = surfacesPresent (elements d)"
  by (simp add: present_def initialApp_def surfacesPresent_def)

lemma newClass_pulse:
  "present a \<Longrightarrow> pulseRing a = Some q \<Longrightarrow> newClass a q c = pulseStyle (isConnected a)"
  by (auto simp: present_def newClass_def)

lemma newText_sensor:
  "present a \<Longrightarrow> r \<in> set (sensorValues a) \<Longrightarrow> newText a r e = sensorText (isConnected a) e"
  by (auto simp: present_def newText_def)

lemma initialApp_simps:
  "isConnected (initialApp d) = False"
  "indicatorBtn (initialApp d) = getElementById (elements d) ''indicatorBtn''"
  "indicatorIcon (initialApp d) = getElementById (elements d) ''indicatorIcon''"
  "indicatorText (initialApp d) = getElementById (elements d) ''indicatorText''"
  "pulseRing (initialApp d) = getElementById (elements d) ''pulseRing''"
  "sensorValues (initialApp d) = querySelectorAll (elements d) ''sensor-val''"
  by (simp_all add: initialApp_def)

lemma afterFirstRender_eq:
  assumes "domContentLoadedListeners d = []"
  shows "this (afterFirstRender d) = initialApp d"
    and "updateUICalls (afterFirstRender d) = 1"
    and "elements (document (afterFirstRender d)) = snd (updateUI_body (initialApp d) (elements d))"
  using assms
  by (simp_all add: afterFirstRender_def constructor_initialApp initialize_def
      domContentLoaded_def document_updateUI)

lemma clickListeners_setupEventListeners:
  "clickListeners (document (setupEventListeners p)) =
     (case indicatorBtn (this p) of
        None \<Rightarrow> clickListeners (document p)
      | Some b \<Rightarrow> clickListeners (document p) @ [(b, BoundHandleIndicatorClick)])"
  by (simp add: setupEventListeners_def split: option.splits)

lemma clickListeners_initialize [simp]:
  "clickListeners (document (snd (initialize p))) = clickListeners (document p)"
  by (simp add: initialize_def)

lemma fst_constructor:
  "fst (constructor d) =
     (if readyState d = Loading \<or> surfacesPresent (elements d) then None else Some TypeError)"
  by (simp add: constructor_initialApp initialize_def fst_updateUI present_initialApp)

lemma click_button:
  assumes "clickListeners d = []" and "getElementById (elements d) ''indicatorBtn'' = Some b"
  shows "click b (snd (constructor d)) = snd (handleIndicatorClick (snd (constructor d)))"
  using assms
  by (simp add: click_def constructor_initialApp clickListeners_setupEventListeners
      initialApp_simps)

lemma getElementById_inj:
  "getElementById els x = Some r \<Longrightarrow> getElementById els y = Some r \<Longrightarrow> x = y"
  using getElementById_SomeD [of els x r] getElementById_SomeD [of els y r] by simp

lemma constructor_not_loading:
  assumes "readyState d \<noteq> Loading"
  shows "elements (document (snd (constructor d))) = snd (updateUI_body (initialApp d) (elements d))"
  using assms by (simp add: constructor_initialApp initialize_def document_updateUI)

lemma constructor_throws_partway:
  assumes nl: "readyState d \<noteq> Loading"
    and btn: "getElementById (elements d) ''indicatorBtn'' \<noteq> None"
    and ns: "\<not> surfacesPresent (elements d)"
  shows "fst (constructor d) = Some TypeError \<and>
      className (elements (document (snd (constructor d))) !
        the (getElementById (elements d) ''indicatorBtn'')) = offlineButton \<and>
      (getElementById (elements d) ''indicatorIcon'' \<noteq> None \<longrightarrow>
         innerText (elements (document (snd (constructor d))) !
           the (getElementById (elements d) ''indicatorIcon'')) = ''wifi_off'') \<and>
      (getElementById (elements d) ''indicatorIcon'' \<noteq> None \<and>
       getElementById (elements d) ''indicatorText'' \<noteq> None \<longrightarrow>
         innerText (elements (document (snd (constructor d))) !
           the (getElementById (elements d) ''indicatorText'')) = ''Offline'') \<and>
      (\<forall>k < length (elements d).
         attributes (elements (document (snd (constructor d))) ! k) = attributes (elements d ! k) \<and>
         (getElementById (elements d) ''indicatorBtn'' \<noteq> Some k \<longrightarrow>
            className (elements (document (snd (constructor d))) ! k) = className (elements d ! k)) \<and>
         (getElementById (elements d) ''indicatorIcon'' = None \<longrightarrow>
            innerText (elements (document (snd (constructor d))) ! k) = innerText (elements d ! k)) \<and>
         (getElementById (elements d) ''indicatorText'' = None \<and>
          getElementById (elements d) ''indicatorIcon'' \<noteq> Some k \<longrightarrow>
            innerText (elements (document (snd (constructor d))) ! k) = innerText (elements d ! k)) \<and>
         (getElementById (elements d) ''indicatorIcon'' \<noteq> Some k \<and>
          getElementById (elements d) ''indicatorText'' \<noteq> Some k \<longrightarrow>
            innerText (elements (document (snd (constructor d))) ! k) = innerText (elements d ! k)))"
proof -
  let ?a = "initialApp d"
  let ?els = "elements d"
  let ?els' = "elements (document (snd (constructor d)))"
  note eq = constructor_not_loading [OF nl]
  from btn obtain b where b: "getElementById ?els ''indicatorBtn'' = Some b"
    by auto
  then have bl: "b < length ?els"
    by (simp add: getElementById_SomeD)
  have np: "\<not> present ?a"
    using ns by (simp add: present_initialApp)
  have thrown: "fst (constructor d) = Some TypeError"
    using nl ns by (simp add: fst_constructor)
  have cls: "className (?els' ! k) = (if k = b then offlineButton else className (?els ! k))"
    if "k < length ?els" for k
    using that b np
    by (simp add: eq className_updateUI_body newClass_def buttonStyle_def initialApp_simps)
  have shown: "innerText (?els' ! k) =
      (if getElementById ?els ''indicatorIcon'' = None then innerText (?els ! k)
       else if getElementById ?els ''indicatorText'' = Some k then ''Offline''
       else if getElementById ?els ''indicatorIcon'' = Some k then ''wifi_off''
       else innerText (?els ! k))"
    if "k < length ?els" for k
    using that b np
    by (simp add: eq innerText_updateUI_body newText_def labelText_def iconGlyph_def
        initialApp_simps)
  have att: "attributes (?els' ! k) = attributes (?els ! k)" if "k < length ?els" for k
    using that by (simp add: eq attributes_updateUI_body)
  have button: "className (?els' ! the (getElementById ?els ''indicatorBtn'')) = offlineButton"
    using b bl by (simp add: cls)
  have icon: "getElementById ?els ''indicatorIcon'' \<noteq> None \<longrightarrow>
      innerText (?els' ! the (getElementById ?els ''indicatorIcon'')) = ''wifi_off''"
  proof
    assume "getElementById ?els ''indicatorIcon'' \<noteq> None"
    then obtain i where i: "getElementById ?els ''indicatorIcon'' = Some i"
      by auto
    then have il: "i < length ?els"
      by (simp add: getElementById_SomeD)
    have "getElementById ?els ''indicatorText'' \<noteq> Some i"
      using getElementById_inj [OF i] by fastforce
    with i il show "innerText (?els' ! the (getElementById ?els ''indicatorIcon'')) = ''wifi_off''"
      by (simp add: shown)
  qed
  have label: "getElementById ?els ''indicatorIcon'' \<noteq> None \<and>
      getElementById ?els ''indicatorText'' \<noteq> None \<longrightarrow>
      innerText (?els' ! the (getElementById ?els ''indicatorText'')) = ''Offline''"
  proof
    assume h: "getElementById ?els ''indicatorIcon'' \<noteq> None \<and>
      getElementById ?els ''indicatorText'' \<noteq> None"
    then obtain t where t: "getElementById ?els ''indicatorText'' = Some t"
      by auto
    then have tl: "t < length ?els"
      by (simp add: getElementById_SomeD)
    from h t tl show "innerText (?els' ! the (getElementById ?els ''indicatorText'')) = ''Offline''"
      by (auto simp add: shown)
  qed
  have rest: "\<forall>k < length ?els.
         attributes (?els' ! k) = attributes (?els ! k) \<and>
         (getElementById ?els ''indicatorBtn'' \<noteq> Some k \<longrightarrow>
            className (?els' ! k) = className (?els ! k)) \<and>
         (getElementById ?els ''indicatorIcon'' = None \<longrightarrow>
            innerText (?els' ! k) = innerText (?els ! k)) \<and>
         (getElementById ?els ''indicatorText'' = None \<and>
          getElementById ?els ''indicatorIcon'' \<noteq> Some k \<longrightarrow>
            innerText (?els' ! k) = innerText (?els ! k)) \<and>
         (getElementById ?els ''indicatorIcon'' \<noteq> Some k \<and>
          getElementById ?els ''indicatorText'' \<noteq> Some k \<longrightarrow>
            innerText (?els' ! k) = innerText (?els ! k))"
    using b by (simp add: cls shown att)
  from thrown button icon label rest show ?thesis
    by blast
qed

section \<open>The claims\<close>

text \<open>
  C4. \<open>updateUI\<close> is idempotent: for every page (every flag, every handle present or
  \<open>null\<close>, every attribute of every element) a second call right after the first ends
  as the first did (normally, or with the same exception), leaves the object as it was and
  leaves the document, that is every class, text, attribute and listener, exactly as the
  first call left it.
\<close>

theorem updateUI_idempotent:
  "fst (updateUI (snd (updateUI p))) = fst (updateUI p) \<and>
   this (snd (updateUI (snd (updateUI p)))) = this (snd (updateUI p)) \<and>
   document (snd (updateUI (snd (updateUI p)))) = document (snd (updateUI p))"
  by (simp add: fst_updateUI document_updateUI updateUI_body_absorb)

text \<open>
  C3. From every page, two calls of \<open>handleIndicatorClick\<close> in succession bring the
  object, and so \<open>isConnected\<close>, back to what it was, and the document they leave is the
  document a call of \<open>updateUI\<close> leaves in the starting state, whether or not that call
  was made before the two toggles.
\<close>

theorem toggle_twice_restores:
  "this (snd (handleIndicatorClick (snd (handleIndicatorClick p)))) = this p \<and>
   isConnected (this (snd (handleIndicatorClick (snd (handleIndicatorClick p)))))
     = isConnected (this p) \<and>
   document (snd (handleIndicatorClick (snd (handleIndicatorClick p))))
     = document (snd (updateUI p)) \<and>
   document (snd (handleIndicatorClick (snd (handleIndicatorClick (snd (updateUI p))))))
     = document (snd (updateUI p))"
proof -
  let ?a = "this p"
  let ?b = "?a\<lparr>isConnected := \<not> isConnected ?a\<rparr>"
  let ?els = "elements (document p)"
  have direct: "snd (updateUI_body ?a (snd (updateUI_body ?b ?els))) = snd (updateUI_body ?a ?els)"
    by (rule updateUI_body_absorb) simp
  have "snd (updateUI_body ?a (snd (updateUI_body ?b (snd (updateUI_body ?a ?els))))) =
        snd (updateUI_body ?a (snd (updateUI_body ?a ?els)))"
    by (rule updateUI_body_absorb) simp
  also have "\<dots> = snd (updateUI_body ?a ?els)"
    by (rule updateUI_body_absorb) simp
  finally have after: "snd (updateUI_body ?a (snd (updateUI_body ?b (snd (updateUI_body ?a ?els))))) =
        snd (updateUI_body ?a ?els)" .
  show ?thesis
    by (simp add: this_handleIndicatorClick document_handleIndicatorClick document_updateUI
        direct after)
qed

text \<open>
  C1. On a page whose four handles are the elements found by id, with the icon and the
  label not themselves sensor elements, \<open>updateUI\<close> runs to its end and leaves the
  presentation of the flag. Connected: every sensor element shows its \<open>data-val\<close>
  attribute, the label reads \<open>Online\<close>, the icon shows \<open>wifi\<close>, the pulse ring has the
  class \<open>hidden\<close>. Disconnected: every sensor element shows \<open>0\<close>, the label reads
  \<open>Offline\<close>, the icon shows \<open>wifi_off\<close>, the pulse ring has its visible classes
  (\<open>hidden\<close> is not among them). The button gets the style of the state.
\<close>

theorem updateUI_presents_state:
  assumes "wired p" and "apart (this p)"
  shows "fst (updateUI p) = None \<and>
    (\<forall>r \<in> set (sensorValues (this p)).
        innerText (rendered p ! r) =
          (if isConnected (this p) then toText (getAttribute (rendered p ! r) ''data-val'')
           else ''0'')) \<and>
    innerText (rendered p ! the (indicatorText (this p))) =
      (if isConnected (this p) then ''Online'' else ''Offline'') \<and>
    innerText (rendered p ! the (indicatorIcon (this p))) =
      (if isConnected (this p) then ''wifi'' else ''wifi_off'') \<and>
    className (rendered p ! the (pulseRing (this p))) =
      (if isConnected (this p) then ''hidden'' else pulseShown) \<and>
    hasClass ''hidden'' (rendered p ! the (pulseRing (this p))) = isConnected (this p) \<and>
    className (rendered p ! the (indicatorBtn (this p))) =
      (if isConnected (this p) then onlineButton else offlineButton)"
proof -
  let ?a = "this p"
  from assms(1) obtain b i t q where h:
    "indicatorBtn ?a = Some b" "indicatorIcon ?a = Some i"
    "indicatorText ?a = Some t" "pulseRing ?a = Some q"
    and len: "b < length (elements (document p))" "i < length (elements (document p))"
    "t < length (elements (document p))" "q < length (elements (document p))"
    and ne: "i \<noteq> t" "b \<noteq> q" and pr: "present ?a"
    and sens: "\<forall>r \<in> set (sensorValues ?a). r < length (elements (document p))"
    by (rule wiredD)
  from assms(2) h have ap: "i \<notin> set (sensorValues ?a)" "t \<notin> set (sensorValues ?a)"
    by (auto simp: apart_def list_all_iff)
  have ok: "fst (updateUI p) = None"
    using pr by (simp add: fst_updateUI)
  have sensors: "\<forall>r \<in> set (sensorValues ?a).
        innerText (rendered p ! r) =
          (if isConnected ?a then toText (getAttribute (rendered p ! r) ''data-val'') else ''0'')"
  proof
    fix r assume r: "r \<in> set (sensorValues ?a)"
    with sens have rl: "r < length (elements (document p))" by simp
    have "getAttribute (rendered p ! r) ''data-val'' =
          getAttribute (elements (document p) ! r) ''data-val''"
      by (simp add: getAttribute_def attributes_rendered [OF rl])
    then show "innerText (rendered p ! r) =
          (if isConnected ?a then toText (getAttribute (rendered p ! r) ''data-val'') else ''0'')"
      using r pr h by (simp add: innerText_rendered [OF rl] newText_def sensorText_def)
  qed
  have label: "innerText (rendered p ! t) = (if isConnected ?a then ''Online'' else ''Offline'')"
    using h ap by (simp add: innerText_rendered [OF len(3)] newText_def labelText_def)
  have icon: "innerText (rendered p ! i) = (if isConnected ?a then ''wifi'' else ''wifi_off'')"
    using h ap ne by (simp add: innerText_rendered [OF len(2)] newText_def iconGlyph_def)
  have pulse: "className (rendered p ! q) = (if isConnected ?a then ''hidden'' else pulseShown)"
    using h pr by (simp add: className_rendered [OF len(4)] newClass_def pulseStyle_def)
  have hidden: "hasClass ''hidden'' (rendered p ! q) = isConnected ?a"
  proof (cases "isConnected ?a")
    case True
    with pulse show ?thesis by (simp add: hasClass_hidden)
  next
    case False
    with pulse show ?thesis by (simp add: hasClass_pulseShown)
  qed
  have button: "className (rendered p ! b) = (if isConnected ?a then onlineButton else offlineButton)"
    using h pr ne by (simp add: className_rendered [OF len(1)] newClass_def buttonStyle_def)
  show ?thesis
    using ok sensors label icon pulse hidden button h by simp
qed

text \<open>
  The dashboard, connected (rendered again after a click) and disconnected (first render
  of a page constructed while loading): the sensor with \<open>data-val = 23.5\<close> shows
  \<open>23.5\<close> when connected and goes from \<open>--\<close> to \<open>0\<close> when disconnected.
\<close>

theorem updateUI_presents_state_witness:
  "wired (snd (handleIndicatorClick (snd (constructor (loaded dashboard))))) \<and>
   apart (this (snd (handleIndicatorClick (snd (constructor (loaded dashboard)))))) \<and>
   isConnected (this (snd (handleIndicatorClick (snd (constructor (loaded dashboard)))))) \<and>
   fst (updateUI (snd (handleIndicatorClick (snd (constructor (loaded dashboard)))))) = None \<and>
   innerText (rendered (snd (handleIndicatorClick (snd (constructor (loaded dashboard))))) ! 4) = ''23.5'' \<and>
   innerText (rendered (snd (handleIndicatorClick (snd (constructor (loaded dashboard))))) ! 2) = ''Online'' \<and>
   innerText (rendered (snd (handleIndicatorClick (snd (constructor (loaded dashboard))))) ! 1) = ''wifi'' \<and>
   className (rendered (snd (handleIndicatorClick (snd (constructor (loaded dashboard))))) ! 3) = ''hidden'' \<and>
   wired (snd (constructor (loading dashboard))) \<and>
   apart (this (snd (constructor (loading dashboard)))) \<and>
   \<not> isConnected (this (snd (constructor (loading dashboard)))) \<and>
   innerText (elements (document (snd (constructor (loading dashboard)))) ! 4) = ''--'' \<and>
   innerText (rendered (snd (constructor (loading dashboard))) ! 4) = ''0'' \<and>
   innerText (rendered (snd (constructor (loading dashboard))) ! 5) = ''0'' \<and>
   innerText (rendered (snd (constructor (loading dashboard))) ! 2) = ''Offline'' \<and>
   innerText (rendered (snd (constructor (loading dashboard))) ! 1) = ''wifi_off'' \<and>
   className (rendered (snd (constructor (loading dashboard))) ! 3) = pulseShown"
proof -
  let ?on = "snd (handleIndicatorClick (snd (constructor (loaded dashboard))))"
  let ?off = "snd (constructor (loading dashboard))"
  have on: "wired ?on" "apart (this ?on)"
    by code_simp+
  have off: "wired ?off" "apart (this ?off)"
    by code_simp+
  have this_on: "this ?on = \<lparr>isConnected = True, indicatorBtn = Some 0, indicatorIcon = Some 1,
      indicatorText = Some 2, pulseRing = Some 3, sensorValues = [4, 5]\<rparr>"
    by code_simp
  have this_off: "this ?off = \<lparr>isConnected = False, indicatorBtn = Some 0, indicatorIcon = Some 1,
      indicatorText = Some 2, pulseRing = Some 3, sensorValues = [4, 5]\<rparr>"
    by code_simp
  have attr: "getAttribute (rendered ?on ! 4) ''data-val'' = JString ''23.5''"
    by code_simp
  have before: "innerText (elements (document ?off) ! 4) = ''--''"
    by code_simp
  show ?thesis
    using on off before updateUI_presents_state [OF on] updateUI_presents_state [OF off]
    by (simp add: this_on this_off attr)
qed

text \<open>
  C2 (as the code has it). With the pulse ring absent and the button, the icon and the
  label bound, \<open>updateUI\<close> assigns the button style, the icon and the label of the state
  and then throws a \<open>TypeError\<close> at the assignment to the pulse ring, which leaves
  \<open>updateUI\<close>. The loop over the sensor elements is not reached: no class but the
  button's changes and no text but the icon's and the label's.
\<close>

theorem updateUI_without_pulse:
  assumes "cached p" and "pulseRing (this p) = None"
    and "indicatorBtn (this p) = Some b" and "indicatorIcon (this p) = Some i"
    and "indicatorText (this p) = Some t"
  shows "fst (updateUI p) = Some TypeError \<and>
    className (rendered p ! b) = (if isConnected (this p) then onlineButton else offlineButton) \<and>
    innerText (rendered p ! i) = (if isConnected (this p) then ''wifi'' else ''wifi_off'') \<and>
    innerText (rendered p ! t) = (if isConnected (this p) then ''Online'' else ''Offline'') \<and>
    (\<forall>k < length (elements (document p)).
       (k \<noteq> i \<and> k \<noteq> t \<longrightarrow> innerText (rendered p ! k) = innerText (elements (document p) ! k)) \<and>
       (k \<noteq> b \<longrightarrow> className (rendered p ! k) = className (elements (document p) ! k)))"
proof -
  have lb: "b < length (elements (document p))"
    by (rule cached_bound [OF assms(1) _ assms(3)]) simp
  have li: "i < length (elements (document p))"
    by (rule cached_bound [OF assms(1) _ assms(4)]) simp
  have lt: "t < length (elements (document p))"
    by (rule cached_bound [OF assms(1) _ assms(5)]) simp
  have np: "\<not> present (this p)"
    using assms(2) by (simp add: present_def)
  have "i \<noteq> t"
    using assms(1,4,5) by (rule cached_icon_label)
  then show ?thesis
    using assms(2-5) np lb li lt
    by (simp add: fst_updateUI innerText_rendered className_rendered newText_def newClass_def
        buttonStyle_def iconGlyph_def labelText_def)
qed

text \<open>
  The dashboard without its pulse ring, constructed while loading: the first
  \<open>updateUI\<close> writes the button, the icon and the label, throws, and leaves the sensor
  element as it was.
\<close>

theorem updateUI_without_pulse_witness:
  "cached (snd (constructor (loading dashboardNoPulse))) \<and>
   this (snd (constructor (loading dashboardNoPulse))) =
     \<lparr>isConnected = False, indicatorBtn = Some 0, indicatorIcon = Some 1,
      indicatorText = Some 2, pulseRing = None, sensorValues = [3]\<rparr> \<and>
   fst (updateUI (snd (constructor (loading dashboardNoPulse)))) = Some TypeError \<and>
   className (rendered (snd (constructor (loading dashboardNoPulse))) ! 0) = offlineButton \<and>
   innerText (rendered (snd (constructor (loading dashboardNoPulse))) ! 1) = ''wifi_off'' \<and>
   innerText (rendered (snd (constructor (loading dashboardNoPulse))) ! 2) = ''Offline'' \<and>
   innerText (rendered (snd (constructor (loading dashboardNoPulse))) ! 3) =
     innerText (elements (document (snd (constructor (loading dashboardNoPulse)))) ! 3)"
proof -
  let ?p = "snd (constructor (loading dashboardNoPulse))"
  have c: "cached ?p"
    by code_simp
  have a: "this ?p = \<lparr>isConnected = False, indicatorBtn = Some 0, indicatorIcon = Some 1,
      indicatorText = Some 2, pulseRing = None, sensorValues = [3]\<rparr>"
    by code_simp
  have l: "length (elements (document ?p)) = 4"
    by code_simp
  show ?thesis
    using c a updateUI_without_pulse [OF c, of 0 1 2]
    by (simp add: l)
qed

text \<open>
  C2 as stated fails there: \<open>updateUI\<close> does not run to its end, and the sensor element
  still shows \<open>--\<close> instead of \<open>0\<close>.
\<close>

theorem updateUI_without_pulse_counterexample:
  "pulseRing (this (snd (constructor (loading dashboardNoPulse)))) = None \<and>
   sensorValues (this (snd (constructor (loading dashboardNoPulse)))) = [3] \<and>
   fst (updateUI (snd (constructor (loading dashboardNoPulse)))) = Some TypeError \<and>
   innerText (rendered (snd (constructor (loading dashboardNoPulse))) ! 3) = ''--'' \<and>
   innerText (rendered (snd (constructor (loading dashboardNoPulse))) ! 3) \<noteq> ''0''"
  by code_simp




text \<open>
  C10 (as the code has it). Connected, with the four handles bound, a sensor element that
  has no \<open>data-val\<close> attribute gets the \<open>null\<close> of the lookup assigned to its
  \<open>innerText\<close>, and the setter stores the empty string for it: the element then shows
  the empty text, whatever it showed before, and neither \<open>null\<close> nor \<open>0\<close>.
\<close>

theorem updateUI_sensor_without_attribute:
  assumes "isConnected (this p)" and "present (this p)"
    and "r \<in> set (sensorValues (this p))" and "r < length (elements (document p))"
    and "getAttribute (elements (document p) ! r) ''data-val'' = JNull"
  shows "innerText (rendered p ! r) = toText JNull \<and> innerText (rendered p ! r) = [] \<and>
         innerText (rendered p ! r) \<noteq> ''null'' \<and> innerText (rendered p ! r) \<noteq> ''0''"
proof -
  from assms have "innerText (rendered p ! r) = []"
    by (auto simp add: innerText_rendered newText_def sensorText_def present_def)
  then show ?thesis by simp
qed

text \<open>
  The second sensor of the dashboard has no \<open>data-val\<close>: a render in the connected
  state leaves it with the empty text.
\<close>

theorem updateUI_sensor_without_attribute_witness:
  "isConnected (this (snd (handleIndicatorClick (snd (constructor (loaded dashboard)))))) \<and>
   present (this (snd (handleIndicatorClick (snd (constructor (loaded dashboard)))))) \<and>
   5 \<in> set (sensorValues (this (snd (handleIndicatorClick (snd (constructor (loaded dashboard))))))) \<and>
   getAttribute (elements (document (snd (handleIndicatorClick (snd (constructor (loaded dashboard)))))) ! 5)
     ''data-val'' = JNull \<and>
   innerText (rendered (snd (handleIndicatorClick (snd (constructor (loaded dashboard))))) ! 5) = []"
proof -
  let ?p = "snd (handleIndicatorClick (snd (constructor (loaded dashboard))))"
  have h: "isConnected (this ?p)" "present (this ?p)" "5 \<in> set (sensorValues (this ?p))"
    "5 < length (elements (document ?p))"
    "getAttribute (elements (document ?p) ! 5) ''data-val'' = JNull"
    by code_simp+
  show ?thesis
    using h updateUI_sensor_without_attribute [OF h] by simp
qed

text \<open>
  C10 as stated fails on the dashboard constructed while loading and then clicked: the
  sensor without \<open>data-val\<close> showed \<open>--\<close>, the click renders the connected state, and the
  element then shows the empty text, not the text \<open>null\<close>.
\<close>

theorem updateUI_sensor_without_attribute_counterexample:
  "getAttribute (elements (document (snd (constructor (loading dashboard)))) ! 5) ''data-val'' = JNull \<and>
   innerText (elements (document (snd (constructor (loading dashboard)))) ! 5) = ''--'' \<and>
   isConnected (this (snd (handleIndicatorClick (snd (constructor (loading dashboard)))))) \<and>
   innerText (elements (document (snd (handleIndicatorClick (snd (constructor (loading dashboard))))))
     ! 5) = [] \<and>
   innerText (elements (document (snd (handleIndicatorClick (snd (constructor (loading dashboard))))))
     ! 5) \<noteq> ''null''"
  by code_simp

text \<open>
  C7. \<open>initialize\<close> brings exactly one call of \<open>updateUI\<close>. When the document is not
  loading, \<open>initialize\<close> is that call, made at once; no listener is registered and a
  later readiness notification brings no further call. When the document is loading,
  \<open>initialize\<close> makes no call and changes no element: it registers one listener on
  \<open>DOMContentLoaded\<close> and returns; the notification then brings one call more than it
  would have brought without this \<open>initialize\<close>, and a notification that has fired does
  not fire again.
\<close>

theorem initialize_renders_once:
  "(readyState (document p) \<noteq> Loading \<longrightarrow>
      initialize p = updateUI p \<and>
      updateUICalls (snd (initialize p)) = Suc (updateUICalls p) \<and>
      domContentLoadedListeners (document (snd (initialize p))) =
        domContentLoadedListeners (document p) \<and>
      updateUICalls (domContentLoaded (snd (initialize p))) = Suc (updateUICalls p)) \<and>
   (readyState (document p) = Loading \<longrightarrow>
      fst (initialize p) = None \<and>
      updateUICalls (snd (initialize p)) = updateUICalls p \<and>
      elements (document (snd (initialize p))) = elements (document p) \<and>
      domContentLoadedListeners (document (snd (initialize p))) =
        domContentLoadedListeners (document p) @ [UpdateUIClosure] \<and>
      updateUICalls (domContentLoaded (snd (initialize p))) =
        Suc (updateUICalls (domContentLoaded p)) \<and>
      domContentLoaded (domContentLoaded (snd (initialize p))) =
        domContentLoaded (snd (initialize p)))"
proof (cases "readyState (document p) = Loading")
  case False
  then have now: "initialize p = updateUI p"
    by (simp add: initialize_def)
  have "readyState (document (snd (updateUI p))) \<noteq> Loading"
    using False by simp
  then have "domContentLoaded (snd (updateUI p)) = snd (updateUI p)"
    by (simp add: domContentLoaded_def)
  with False now show ?thesis
    by simp
next
  case True
  let ?q = "p\<lparr>document := (document p)
      \<lparr>domContentLoadedListeners := domContentLoadedListeners (document p) @ [UpdateUIClosure]\<rparr>\<rparr>"
  from True have later: "initialize p = (None, ?q)"
    by (simp add: initialize_def)
  have fired: "updateUICalls (domContentLoaded ?q) =
      updateUICalls p + length (domContentLoadedListeners (document p) @ [UpdateUIClosure])"
    using True by (simp add: domContentLoaded_def)
  have unfired: "updateUICalls (domContentLoaded p) =
      updateUICalls p + length (domContentLoadedListeners (document p))"
    using True by (simp add: domContentLoaded_def)
  from True later fired unfired show ?thesis
    by (simp add: domContentLoaded_once)
qed

text \<open>
  The two cases on the dashboard, at the page on which the constructor calls
  \<open>initialize\<close>: loading, no render until the notification and one after it, also
  after a second notification; loaded, one render at once and none after.
\<close>

theorem initialize_renders_once_witness:
  "readyState (document (setupEventListeners
      \<lparr>this = initialApp (loading dashboard), document = loading dashboard, updateUICalls = 0\<rparr>))
     = Loading \<and>
   updateUICalls (snd (constructor (loading dashboard))) = 0 \<and>
   domContentLoadedListeners (document (snd (constructor (loading dashboard)))) = [UpdateUIClosure] \<and>
   updateUICalls (domContentLoaded (snd (constructor (loading dashboard)))) = 1 \<and>
   updateUICalls (domContentLoaded (domContentLoaded (snd (constructor (loading dashboard))))) = 1 \<and>
   readyState (document (setupEventListeners
      \<lparr>this = initialApp (loaded dashboard), document = loaded dashboard, updateUICalls = 0\<rparr>))
     \<noteq> Loading \<and>
   updateUICalls (snd (constructor (loaded dashboard))) = 1 \<and>
   domContentLoadedListeners (document (snd (constructor (loaded dashboard)))) = [] \<and>
   updateUICalls (domContentLoaded (snd (constructor (loaded dashboard)))) = 1"
proof -
  let ?l = "setupEventListeners
      \<lparr>this = initialApp (loading dashboard), document = loading dashboard, updateUICalls = 0\<rparr>"
  let ?c = "setupEventListeners
      \<lparr>this = initialApp (loaded dashboard), document = loaded dashboard, updateUICalls = 0\<rparr>"
  have l: "readyState (document ?l) = Loading" "domContentLoadedListeners (document ?l) = []"
    "updateUICalls ?l = 0" "updateUICalls (domContentLoaded ?l) = 0"
    by (simp_all add: loading_def domContentLoaded_def)
  have c: "readyState (document ?c) \<noteq> Loading" "domContentLoadedListeners (document ?c) = []"
    "updateUICalls ?c = 0"
    by (simp_all add: loaded_def)
  note L = mp [OF conjunct2 [OF initialize_renders_once [of ?l]] l(1)]
  note C = mp [OF conjunct1 [OF initialize_renders_once [of ?c]] c(1), THEN conjunct2]
  have L1: "updateUICalls (snd (initialize ?l)) = 0"
    using L l(3) by simp
  have L2: "domContentLoadedListeners (document (snd (initialize ?l))) = [UpdateUIClosure]"
    using L l(2) by simp
  have L3: "updateUICalls (domContentLoaded (snd (initialize ?l))) = 1"
    using L l(4) by simp
  have L4: "updateUICalls (domContentLoaded (domContentLoaded (snd (initialize ?l)))) = 1"
    using L l(4) by simp
  have C1: "updateUICalls (snd (initialize ?c)) = 1"
    using C c(3) by simp
  have C2: "domContentLoadedListeners (document (snd (initialize ?c))) = []"
    using C c(2) by simp
  have C3: "updateUICalls (domContentLoaded (snd (initialize ?c))) = 1"
    using C c(3) by simp
  show ?thesis
    using l(1) c(1) L1 L2 L3 L4 C1 C2 C3 unfolding constructor_initialApp by simp
qed

text \<open>
  C8. Only \<open>handleIndicatorClick\<close> changes \<open>isConnected\<close>: \<open>updateUI\<close>, \<open>initialize\<close> and
  the readiness notification leave the whole object as it is, and \<open>updateUI\<close> leaves
  the attributes of every element, \<open>data-val\<close> among them, as they are. So after the
  constructor and any sequence of toggles, renders, initialisations and notifications,
  on any document, \<open>isConnected\<close> holds exactly when the number of toggles is odd.
\<close>

theorem isConnected_only_toggled:
  "this (snd (updateUI p)) = this p \<and>
   isConnected (this (snd (updateUI p))) = isConnected (this p) \<and>
   this (snd (initialize p)) = this p \<and>
   isConnected (this (snd (initialize p))) = isConnected (this p) \<and>
   this (domContentLoaded p) = this p \<and>
   map attributes (rendered p) = map attributes (elements (document p)) \<and>
   isConnected (this (snd (constructor d))) = False \<and>
   isConnected (this (run ops (snd (constructor d)))) = odd (count_list ops Toggle)"
proof -
  have start: "isConnected (this (snd (constructor d))) = False"
    by (simp add: this_constructor initialApp_simps)
  have "isConnected (this (run ops (snd (constructor d)))) =
        (isConnected (this (snd (constructor d))) \<noteq> odd (count_list ops Toggle))"
    by (rule isConnected_run)
  with start have "isConnected (this (run ops (snd (constructor d)))) = odd (count_list ops Toggle)"
    by simp
  with start show ?thesis
    by (simp add: map_attributes_rendered)
qed

text \<open>
  C5. On a document that has the four identified elements and on which the script has
  registered no listener yet, after \<open>new ACMonitorApp()\<close>
  and the first call of \<open>updateUI\<close> (made by the constructor, or by \<open>DOMContentLoaded\<close>
  when the document was loading): \<open>isConnected\<close> is \<open>false\<close>, there has been one call
  of \<open>updateUI\<close>, the pulse ring has its visible classes, and every element with the
  class \<open>sensor-val\<close> shows \<open>0\<close>.
\<close>

theorem first_render_disconnected:
  assumes "surfacesPresent (elements d)" and "domContentLoadedListeners d = []"
  shows "\<not> isConnected (this (afterFirstRender d)) \<and>
    updateUICalls (afterFirstRender d) = 1 \<and>
    pulseRing (this (afterFirstRender d)) = getElementById (elements d) ''pulseRing'' \<and>
    className (elements (document (afterFirstRender d)) !
        the (getElementById (elements d) ''pulseRing'')) = pulseShown \<and>
    \<not> hasClass ''hidden''
      (elements (document (afterFirstRender d)) ! the (getElementById (elements d) ''pulseRing'')) \<and>
    sensorValues (this (afterFirstRender d)) = querySelectorAll (elements d) ''sensor-val'' \<and>
    (\<forall>r \<in> set (querySelectorAll (elements d) ''sensor-val'').
        innerText (elements (document (afterFirstRender d)) ! r) = ''0'')"
proof -
  note eq = afterFirstRender_eq [OF assms(2)]
  let ?a = "initialApp d"
  have pr: "present ?a"
    using assms(1) by (simp add: present_initialApp)
  then obtain q where q: "pulseRing ?a = Some q"
    by (auto simp: present_def)
  then have g: "getElementById (elements d) ''pulseRing'' = Some q"
    by (simp add: initialApp_simps)
  then have ql: "q < length (elements d)"
    by (simp add: getElementById_SomeD)
  have pulse: "className (snd (updateUI_body ?a (elements d)) ! q) = pulseShown"
    by (simp add: className_updateUI_body [OF ql] newClass_pulse [OF pr q] pulseStyle_def
        initialApp_simps)
  have sensors: "\<forall>r \<in> set (sensorValues ?a). innerText (snd (updateUI_body ?a (elements d)) ! r) = ''0''"
  proof
    fix r assume r: "r \<in> set (sensorValues ?a)"
    then have rl: "r < length (elements d)"
      by (simp add: initialApp_simps querySelectorAll_bound)
    show "innerText (snd (updateUI_body ?a (elements d)) ! r) = ''0''"
      by (simp add: innerText_updateUI_body [OF rl] newText_sensor [OF pr r] sensorText_def
          initialApp_simps)
  qed
  have "\<not> isConnected (this (afterFirstRender d))"
    by (simp add: eq initialApp_simps)
  moreover have "updateUICalls (afterFirstRender d) = 1"
    by (simp add: eq)
  moreover have "pulseRing (this (afterFirstRender d)) = getElementById (elements d) ''pulseRing''"
    by (simp add: eq initialApp_simps)
  moreover have "className (elements (document (afterFirstRender d)) !
      the (getElementById (elements d) ''pulseRing'')) = pulseShown"
    using pulse g by (simp add: eq)
  moreover from this have "\<not> hasClass ''hidden''
      (elements (document (afterFirstRender d)) ! the (getElementById (elements d) ''pulseRing''))"
    by (rule hasClass_pulseShown)
  moreover have "sensorValues (this (afterFirstRender d)) = querySelectorAll (elements d) ''sensor-val''"
    by (simp add: eq initialApp_simps)
  moreover have "\<forall>r \<in> set (querySelectorAll (elements d) ''sensor-val'').
        innerText (elements (document (afterFirstRender d)) ! r) = ''0''"
    using sensors by (simp add: eq initialApp_simps)
  ultimately show ?thesis by blast
qed

text \<open>
  The dashboard, found loading and found loaded: disconnected, one render, the pulse
  ring visible and both sensors at \<open>0\<close>.
\<close>

theorem first_render_disconnected_witness:
  "surfacesPresent (elements (loading dashboard)) \<and>
   domContentLoadedListeners (loading dashboard) = [] \<and>
   \<not> isConnected (this (afterFirstRender (loading dashboard))) \<and>
   updateUICalls (afterFirstRender (loading dashboard)) = 1 \<and>
   className (elements (document (afterFirstRender (loading dashboard))) ! 3) = pulseShown \<and>
   innerText (elements (document (afterFirstRender (loading dashboard))) ! 4) = ''0'' \<and>
   innerText (elements (document (afterFirstRender (loading dashboard))) ! 5) = ''0'' \<and>
   surfacesPresent (elements (loaded dashboard)) \<and>
   domContentLoadedListeners (loaded dashboard) = [] \<and>
   \<not> isConnected (this (afterFirstRender (loaded dashboard))) \<and>
   updateUICalls (afterFirstRender (loaded dashboard)) = 1 \<and>
   className (elements (document (afterFirstRender (loaded dashboard))) ! 3) = pulseShown \<and>
   innerText (elements (document (afterFirstRender (loaded dashboard))) ! 4) = ''0'' \<and>
   innerText (elements (document (afterFirstRender (loaded dashboard))) ! 5) = ''0''"
proof -
  have l: "surfacesPresent (elements (loading dashboard))"
    "domContentLoadedListeners (loading dashboard) = []"
    by code_simp+
  have c: "surfacesPresent (elements (loaded dashboard))"
    "domContentLoadedListeners (loaded dashboard) = []"
    by code_simp+
  have g: "getElementById (elements (loading dashboard)) ''pulseRing'' = Some 3"
    "querySelectorAll (elements (loading dashboard)) ''sensor-val'' = [4, 5]"
    "getElementById (elements (loaded dashboard)) ''pulseRing'' = Some 3"
    "querySelectorAll (elements (loaded dashboard)) ''sensor-val'' = [4, 5]"
    by code_simp+
  show ?thesis
    using l c first_render_disconnected [OF l] first_render_disconnected [OF c]
    by (simp add: g)
qed

text \<open>
  C9 (as the code has it). \<open>new ACMonitorApp()\<close> ends without an exception on every
  document that is still loading, whatever is absent from it, since no element is
  touched then and the first render is left to \<open>DOMContentLoaded\<close>; and on every document
  that has the four identified elements, with or without sensor elements. With no
  indicator button the wiring of the click listener is a no-op; with no sensor element
  the render changes no text but the icon's and the label's. On a document that is
  not loading, has the button and lacks the icon, the label or the pulse ring, the
  constructor ends with the \<open>TypeError\<close> of the render, and the render has stopped at
  the absent element: the button has its offline style, the icon (if it is there) shows
  \<open>wifi_off\<close>, the label (if it and the icon are there) reads \<open>Offline\<close>, and the
  steps after the absent element have not run. No class but the button's has changed,
  so the pulse ring is untouched; no text has changed at all when the icon is absent,
  none but the icon's when the label is absent, and in every case none but the icon's
  and the label's, so the sensor loop has not run. No attribute has changed.
\<close>

theorem constructor_degraded:
  "(readyState d = Loading \<longrightarrow>
      fst (constructor d) = None \<and>
      elements (document (snd (constructor d))) = elements d \<and>
      updateUICalls (snd (constructor d)) = 0) \<and>
   (surfacesPresent (elements d) \<longrightarrow> fst (constructor d) = None) \<and>
   (getElementById (elements d) ''indicatorBtn'' = None \<longrightarrow>
      clickListeners (document (snd (constructor d))) = clickListeners d) \<and>
   (surfacesPresent (elements d) \<and> querySelectorAll (elements d) ''sensor-val'' = [] \<longrightarrow>
      (\<forall>k < length (elements d).
         getElementById (elements d) ''indicatorIcon'' \<noteq> Some k \<and>
         getElementById (elements d) ''indicatorText'' \<noteq> Some k \<longrightarrow>
         innerText (elements (document (snd (constructor d))) ! k) = innerText (elements d ! k))) \<and>
   (readyState d \<noteq> Loading \<and> getElementById (elements d) ''indicatorBtn'' \<noteq> None \<and>
    \<not> surfacesPresent (elements d) \<longrightarrow>
      fst (constructor d) = Some TypeError \<and>
      className (elements (document (snd (constructor d))) !
        the (getElementById (elements d) ''indicatorBtn'')) = offlineButton \<and>
      (getElementById (elements d) ''indicatorIcon'' \<noteq> None \<longrightarrow>
         innerText (elements (document (snd (constructor d))) !
           the (getElementById (elements d) ''indicatorIcon'')) = ''wifi_off'') \<and>
      (getElementById (elements d) ''indicatorIcon'' \<noteq> None \<and>
       getElementById (elements d) ''indicatorText'' \<noteq> None \<longrightarrow>
         innerText (elements (document (snd (constructor d))) !
           the (getElementById (elements d) ''indicatorText'')) = ''Offline'') \<and>
      (\<forall>k < length (elements d).
         attributes (elements (document (snd (constructor d))) ! k) = attributes (elements d ! k) \<and>
         (getElementById (elements d) ''indicatorBtn'' \<noteq> Some k \<longrightarrow>
            className (elements (document (snd (constructor d))) ! k) = className (elements d ! k)) \<and>
         (getElementById (elements d) ''indicatorIcon'' = None \<longrightarrow>
            innerText (elements (document (snd (constructor d))) ! k) = innerText (elements d ! k)) \<and>
         (getElementById (elements d) ''indicatorText'' = None \<and>
          getElementById (elements d) ''indicatorIcon'' \<noteq> Some k \<longrightarrow>
            innerText (elements (document (snd (constructor d))) ! k) = innerText (elements d ! k)) \<and>
         (getElementById (elements d) ''indicatorIcon'' \<noteq> Some k \<and>
          getElementById (elements d) ''indicatorText'' \<noteq> Some k \<longrightarrow>
            innerText (elements (document (snd (constructor d))) ! k) = innerText (elements d ! k))))"
proof -
  have loading: "readyState d = Loading \<longrightarrow>
      fst (constructor d) = None \<and>
      elements (document (snd (constructor d))) = elements d \<and>
      updateUICalls (snd (constructor d)) = 0"
    by (simp add: constructor_initialApp initialize_def)
  have wiring: "getElementById (elements d) ''indicatorBtn'' = None \<longrightarrow>
      clickListeners (document (snd (constructor d))) = clickListeners d"
    by (simp add: constructor_initialApp clickListeners_setupEventListeners initialApp_simps)
  have nosensor: "surfacesPresent (elements d) \<and> querySelectorAll (elements d) ''sensor-val'' = [] \<longrightarrow>
      (\<forall>k < length (elements d).
         getElementById (elements d) ''indicatorIcon'' \<noteq> Some k \<and>
         getElementById (elements d) ''indicatorText'' \<noteq> Some k \<longrightarrow>
         innerText (elements (document (snd (constructor d))) ! k) = innerText (elements d ! k))"
    by (simp add: constructor_initialApp initialize_def innerText_rendered newText_def
        initialApp_simps)
  have complete: "surfacesPresent (elements d) \<longrightarrow> fst (constructor d) = None"
    by (simp add: fst_constructor)
  have partway: "readyState d \<noteq> Loading \<and> getElementById (elements d) ''indicatorBtn'' \<noteq> None \<and>
    \<not> surfacesPresent (elements d) \<longrightarrow>
      fst (constructor d) = Some TypeError \<and>
      className (elements (document (snd (constructor d))) !
        the (getElementById (elements d) ''indicatorBtn'')) = offlineButton \<and>
      (getElementById (elements d) ''indicatorIcon'' \<noteq> None \<longrightarrow>
         innerText (elements (document (snd (constructor d))) !
           the (getElementById (elements d) ''indicatorIcon'')) = ''wifi_off'') \<and>
      (getElementById (elements d) ''indicatorIcon'' \<noteq> None \<and>
       getElementById (elements d) ''indicatorText'' \<noteq> None \<longrightarrow>
         innerText (elements (document (snd (constructor d))) !
           the (getElementById (elements d) ''indicatorText'')) = ''Offline'') \<and>
      (\<forall>k < length (elements d).
         attributes (elements (document (snd (constructor d))) ! k) = attributes (elements d ! k) \<and>
         (getElementById (elements d) ''indicatorBtn'' \<noteq> Some k \<longrightarrow>
            className (elements (document (snd (constructor d))) ! k) = className (elements d ! k)) \<and>
         (getElementById (elements d) ''indicatorIcon'' = None \<longrightarrow>
            innerText (elements (document (snd (constructor d))) ! k) = innerText (elements d ! k)) \<and>
         (getElementById (elements d) ''indicatorText'' = None \<and>
          getElementById (elements d) ''indicatorIcon'' \<noteq> Some k \<longrightarrow>
            innerText (elements (document (snd (constructor d))) ! k) = innerText (elements d ! k)) \<and>
         (getElementById (elements d) ''indicatorIcon'' \<noteq> Some k \<and>
          getElementById (elements d) ''indicatorText'' \<noteq> Some k \<longrightarrow>
            innerText (elements (document (snd (constructor d))) ! k) = innerText (elements d ! k)))"
    using constructor_throws_partway [of d] by blast
  from loading complete wiring nosensor partway show ?thesis
    by (intro conjI)
qed

text \<open>
  Each case on a document: the dashboard without its pulse ring found loading; the whole
  dashboard found loaded; the empty document; the dashboard cut to its four identified
  elements, with no sensor; the dashboard without its pulse ring found loaded, where the
  button, the icon and the label are written and the sensor keeps its class and its
  \<open>--\<close>.
\<close>

theorem constructor_degraded_witness:
  "readyState (loading dashboardNoPulse) = Loading \<and>
   fst (constructor (loading dashboardNoPulse)) = None \<and>
   elements (document (snd (constructor (loading dashboardNoPulse)))) = dashboardNoPulse \<and>
   surfacesPresent (elements (loaded dashboard)) \<and>
   fst (constructor (loaded dashboard)) = None \<and>
   getElementById (elements (loading [])) ''indicatorBtn'' = None \<and>
   clickListeners (document (snd (constructor (loading [])))) = [] \<and>
   surfacesPresent (elements (loaded (take 4 dashboard))) \<and>
   querySelectorAll (elements (loaded (take 4 dashboard))) ''sensor-val'' = [] \<and>
   innerText (elements (document (snd (constructor (loaded (take 4 dashboard))))) ! 0) = [] \<and>
   readyState (loaded dashboardNoPulse) \<noteq> Loading \<and>
   getElementById (elements (loaded dashboardNoPulse)) ''indicatorBtn'' \<noteq> None \<and>
   \<not> surfacesPresent (elements (loaded dashboardNoPulse)) \<and>
   fst (constructor (loaded dashboardNoPulse)) = Some TypeError \<and>
   className (elements (document (snd (constructor (loaded dashboardNoPulse)))) ! 0) = offlineButton \<and>
   innerText (elements (document (snd (constructor (loaded dashboardNoPulse)))) ! 1) = ''wifi_off'' \<and>
   innerText (elements (document (snd (constructor (loaded dashboardNoPulse)))) ! 2) = ''Offline'' \<and>
   className (elements (document (snd (constructor (loaded dashboardNoPulse)))) ! 3) =
     ''sensor-val text-2xl'' \<and>
   innerText (elements (document (snd (constructor (loaded dashboardNoPulse)))) ! 3) = ''--''"
proof -
  have a: "readyState (loading dashboardNoPulse) = Loading"
    "elements (loading dashboardNoPulse) = dashboardNoPulse"
    by (simp_all add: loading_def)
  have b: "surfacesPresent (elements (loaded dashboard))"
    by code_simp
  have c: "getElementById (elements (loading [])) ''indicatorBtn'' = None"
    "clickListeners (loading []) = []"
    by code_simp+
  have e: "surfacesPresent (elements (loaded (take 4 dashboard)))"
    "querySelectorAll (elements (loaded (take 4 dashboard))) ''sensor-val'' = []"
    "(0::nat) < length (elements (loaded (take 4 dashboard)))"
    "getElementById (elements (loaded (take 4 dashboard))) ''indicatorIcon'' \<noteq> Some 0"
    "getElementById (elements (loaded (take 4 dashboard))) ''indicatorText'' \<noteq> Some 0"
    "innerText (elements (loaded (take 4 dashboard)) ! 0) = []"
    by code_simp+
  have f: "readyState (loaded dashboardNoPulse) \<noteq> Loading"
    "getElementById (elements (loaded dashboardNoPulse)) ''indicatorBtn'' \<noteq> None"
    "\<not> surfacesPresent (elements (loaded dashboardNoPulse))"
    by code_simp+
  note A = constructor_degraded [of "loading dashboardNoPulse", THEN conjunct1, THEN mp, OF a(1)]
  note B = constructor_degraded [of "loaded dashboard", THEN conjunct2, THEN conjunct1, THEN mp,
      OF b]
  note C = constructor_degraded [of "loading []", THEN conjunct2, THEN conjunct2, THEN conjunct1,
      THEN mp, OF c(1)]
  note E = constructor_degraded [of "loaded (take 4 dashboard)", THEN conjunct2, THEN conjunct2,
      THEN conjunct2, THEN conjunct1, THEN mp, OF conjI [OF e(1,2)], THEN spec, of 0, THEN mp,
      OF e(3), THEN mp, OF conjI [OF e(4,5)]]
  note F = constructor_degraded [of "loaded dashboardNoPulse", THEN conjunct2, THEN conjunct2,
      THEN conjunct2, THEN conjunct2, THEN mp, OF conjI [OF f(1) conjI [OF f(2,3)]]]
  have g: "getElementById (elements (loaded dashboardNoPulse)) ''indicatorBtn'' = Some 0"
    "getElementById (elements (loaded dashboardNoPulse)) ''indicatorIcon'' = Some 1"
    "getElementById (elements (loaded dashboardNoPulse)) ''indicatorText'' = Some 2"
    "(3::nat) < length (elements (loaded dashboardNoPulse))"
    "className (elements (loaded dashboardNoPulse) ! 3) = ''sensor-val text-2xl''"
    "innerText (elements (loaded dashboardNoPulse) ! 3) = ''--''"
    by code_simp+
  have F1: "fst (constructor (loaded dashboardNoPulse)) = Some TypeError"
    using F by (rule conjunct1)
  have F2: "className (elements (document (snd (constructor (loaded dashboardNoPulse)))) ! 0) =
      offlineButton"
    using F [THEN conjunct2, THEN conjunct1] by (simp add: g)
  have F3: "innerText (elements (document (snd (constructor (loaded dashboardNoPulse)))) ! 1) =
      ''wifi_off''"
    using F [THEN conjunct2, THEN conjunct2, THEN conjunct1] by (simp add: g)
  have F4: "innerText (elements (document (snd (constructor (loaded dashboardNoPulse)))) ! 2) =
      ''Offline''"
    using F [THEN conjunct2, THEN conjunct2, THEN conjunct2, THEN conjunct1] by (simp add: g)
  note F5 = F [THEN conjunct2, THEN conjunct2, THEN conjunct2, THEN conjunct2, THEN spec, of 3,
      THEN mp, OF g(4)]
  have F6: "className (elements (document (snd (constructor (loaded dashboardNoPulse)))) ! 3) =
      ''sensor-val text-2xl''"
    using F5 by (simp add: g)
  have F7: "innerText (elements (document (snd (constructor (loaded dashboardNoPulse)))) ! 3) = ''--''"
    using F5 by (simp add: g)
  show ?thesis
    using a b c e f A B C E F1 F2 F3 F4 F6 F7 by simp
qed

text \<open>
  C9 as stated fails on the dashboard without its pulse ring, found loaded: the
  constructor ends with a \<open>TypeError\<close>, and the step after the absent element, the
  update of the sensor, has not run (the sensor still shows \<open>--\<close>).
\<close>

theorem constructor_degraded_counterexample:
  "getElementById (elements (loaded dashboardNoPulse)) ''pulseRing'' = None \<and>
   fst (constructor (loaded dashboardNoPulse)) = Some TypeError \<and>
   sensorValues (this (snd (constructor (loaded dashboardNoPulse)))) = [3] \<and>
   innerText (elements (document (snd (constructor (loaded dashboardNoPulse)))) ! 3) = ''--''"
  by code_simp

end
